theory Spec2Isabelle
  imports Main "HOL-Library.AList"
begin

section \<open>JavaScript values\<close>

text \<open>
  The feature factory of the panel (\<^verbatim>\<open>export default (panel, key, defaults) => {...}\<close>)
  works on untyped JavaScript values. The values the feature code inspects are modelled by
  \<open>val\<close>: a plain object is an association list of own properties, a function is known
  by its identity only (\<open>Fn n\<close>; \<open>Dummy\<close> is the no-op arrow function \<^verbatim>\<open>() => {}\<close> that
  \<^verbatim>\<open>emit\<close> creates; \<open>Inherited name\<close> is the method \<^verbatim>\<open>Object.prototype[name]\<close> that every
  plain object inherits), a \<^verbatim>\<open>URL\<close> instance is \<open>Url\<close>. Numbers are integers, which is all
  the truthiness tests of the code can see. Accessor properties, a changed prototype and
  expando properties of functions and URL instances are outside the model.
\<close>

datatype fn = Dummy | Fn nat | Inherited string

datatype val =
    Undefined
  | Null
  | Bool bool
  | Num int
  | Str string
  | Fun fn
  | Url string
  | Obj "(string \<times> val) list"

text \<open>What a \<^verbatim>\<open>throw\<close> carries: a \<^verbatim>\<open>TypeError\<close> of the language, an \<^verbatim>\<open>Error\<close> with its
  message, or whatever a collaborator threw.\<close>

datatype exn = TypeError | Error string | Thrown val

text \<open>\<^verbatim>\<open>typeof v\<close>\<close>

fun typeof :: "val \<Rightarrow> string" where
  "typeof Undefined = ''undefined''"
| "typeof Null = ''object''"
| "typeof (Bool b) = ''boolean''"
| "typeof (Num n) = ''number''"
| "typeof (Str s) = ''string''"
| "typeof (Fun f) = ''function''"
| "typeof (Url u) = ''object''"
| "typeof (Obj kvs) = ''object''"

text \<open>Truthiness, as \<^verbatim>\<open>!v\<close> and \<^verbatim>\<open>||\<close> test it.\<close>

fun truthy :: "val \<Rightarrow> bool" where
  "truthy Undefined = False"
| "truthy Null = False"
| "truthy (Bool b) = b"
| "truthy (Num n) = (n \<noteq> 0)"
| "truthy (Str s) = (s \<noteq> [])"
| "truthy (Fun f) = True"
| "truthy (Url u) = True"
| "truthy (Obj kvs) = True"

text \<open>\<^verbatim>\<open>a ?? b\<close> takes \<open>b\<close> when \<open>a\<close> is \<^verbatim>\<open>null\<close> or \<^verbatim>\<open>undefined\<close>.\<close>

fun nullish :: "val \<Rightarrow> bool" where
  "nullish Undefined = True"
| "nullish Null = True"
| "nullish v = False"

definition coalesce :: "val \<Rightarrow> val \<Rightarrow> val" where
  "coalesce a b = (if nullish a then b else a)"

text \<open>A default parameter (\<^verbatim>\<open>options = {}\<close>) replaces \<^verbatim>\<open>undefined\<close> only.\<close>

definition default_arg :: "val \<Rightarrow> val \<Rightarrow> val" where
  "default_arg d v = (if v = Undefined then d else v)"

text \<open>Reading an own property of a plain object: \<^verbatim>\<open>undefined\<close> when absent.\<close>

definition own_prop :: "(string \<times> val) list \<Rightarrow> string \<Rightarrow> val" where
  "own_prop kvs k = (case map_of kvs k of Some v \<Rightarrow> v | None \<Rightarrow> Undefined)"

text \<open>The function-valued members of \<^verbatim>\<open>Object.prototype\<close>, which a plain object (\<^verbatim>\<open>{}\<close>)
  inherits, and \<^verbatim>\<open>Object.prototype\<close> itself, which the inherited \<^verbatim>\<open>__proto__\<close> gives.\<close>

definition object_prototype_methods :: "string list" where
  "object_prototype_methods =
     [''constructor'', ''toString'', ''toLocaleString'', ''valueOf'', ''hasOwnProperty'',
      ''isPrototypeOf'', ''propertyIsEnumerable'', ''__defineGetter__'', ''__defineSetter__'',
      ''__lookupGetter__'', ''__lookupSetter__'']"

definition object_prototype_object :: val where
  "object_prototype_object = Obj (map (\<lambda>k. (k, Fun (Inherited k))) object_prototype_methods)"

text \<open>\<^verbatim>\<open>obj[k]\<close> on a plain object, for an arbitrary name \<open>k\<close>: the own property when there is
  one, the member of \<^verbatim>\<open>Object.prototype\<close> otherwise, \<^verbatim>\<open>undefined\<close> when neither exists.\<close>

definition chain_prop :: "(string \<times> val) list \<Rightarrow> string \<Rightarrow> val" where
  "chain_prop kvs k =
     (case map_of kvs k of
        Some v \<Rightarrow> v
      | None \<Rightarrow>
          if k \<in> set object_prototype_methods then Fun (Inherited k)
          else if k = ''__proto__'' then object_prototype_object
          else Undefined)"

text \<open>\<^verbatim>\<open>v.k\<close> or \<^verbatim>\<open>v[k]\<close> for the fixed names the feature reads (\<^verbatim>\<open>on\<close>, \<^verbatim>\<open>url\<close>,
  \<^verbatim>\<open>component\<close>, \<^verbatim>\<open>props\<close>, \<^verbatim>\<open>value\<close>, \<^verbatim>\<open>"$" + key\<close>): a \<^verbatim>\<open>TypeError\<close> on \<^verbatim>\<open>null\<close> and
  \<^verbatim>\<open>undefined\<close>. None of these names is a member of \<^verbatim>\<open>Object.prototype\<close>, so on a plain
  object the read is the own property, and on every other value it is \<^verbatim>\<open>undefined\<close>.\<close>

fun get_prop :: "val \<Rightarrow> string \<Rightarrow> exn + val" where
  "get_prop Undefined k = Inl TypeError"
| "get_prop Null k = Inl TypeError"
| "get_prop (Obj kvs) k = Inr (own_prop kvs k)"
| "get_prop v k = Inr Undefined"

text \<open>\<^verbatim>\<open>v.k = x\<close> in strict mode (the file is an ES module): a \<^verbatim>\<open>TypeError\<close> on
  \<^verbatim>\<open>null\<close>, \<^verbatim>\<open>undefined\<close> and on primitives; a function or a URL instance accepts the
  assignment, which the model does not record.\<close>

fun set_prop :: "val \<Rightarrow> string \<Rightarrow> val \<Rightarrow> exn + val" where
  "set_prop (Obj kvs) k x = Inr (Obj (AList.update k x kvs))"
| "set_prop (Fun f) k x = Inr (Fun f)"
| "set_prop (Url u) k x = Inr (Url u)"
| "set_prop v k x = Inl TypeError"

text \<open>\<^verbatim>\<open>a === b\<close>: by value on primitives, by identity on functions. Two objects are equal
  only when they are the same reference; the model has no references and reads two object
  values as two objects (a decoded response is a fresh object).\<close>

fun strict_eq :: "val \<Rightarrow> val \<Rightarrow> bool" where
  "strict_eq (Obj a) b = False"
| "strict_eq (Url a) b = False"
| "strict_eq a b = (a = b)"


section \<open>The feature state\<close>

text \<open>The state record of \<^verbatim>\<open>defaults()\<close>. The listener map \<open>on\<close> is an object; its values are
  arbitrary JavaScript values.\<close>

record feature =
  component :: val
  isLoading :: val
  on :: "(string \<times> val) list"
  path :: val
  props :: val
  query :: val
  referrer :: val
  timestamp :: val

definition defaults :: feature where
  "defaults =
     \<lparr> component = Null,
       isLoading = Bool False,
       on = [],
       path = Null,
       props = Obj [],
       query = Obj [],
       referrer = Null,
       timestamp = Null \<rparr>"


section \<open>Collaborators\<close>

text \<open>
  What the factory closes over. \<open>key\<close> is the feature's key. The \<^verbatim>\<open>panel\<close> singleton is
  external: each of its calls may run arbitrary code (an \<^verbatim>\<open>await\<close> suspends the method),
  so it takes the feature state and returns it, possibly changed, with a value or a thrown
  error. \<open>call n\<close> runs the function \<open>Fn n\<close> on an argument list in the same way.
  \<open>object_prototype name\<close> is the runtime's own \<^verbatim>\<open>Object.prototype[name]\<close>, applied to the
  object it is called on and an argument list: it gives a value or throws.
  \<open>isUrl\<close> is the helper imported from \<^verbatim>\<open>@/helpers/url\<close>; the feature uses its verdict
  only.
\<close>

record env =
  key :: string
  isUrl :: "val \<Rightarrow> bool"
  panel_open :: "val \<Rightarrow> val \<Rightarrow> feature \<Rightarrow> (exn + val) \<times> feature"
  panel_get :: "val \<Rightarrow> val \<Rightarrow> feature \<Rightarrow> (exn + val) \<times> feature"
  panel_post :: "val \<Rightarrow> val \<Rightarrow> val \<Rightarrow> feature \<Rightarrow> (exn + val) \<times> feature"
  panel_url :: "val \<Rightarrow> val \<Rightarrow> exn + val"
  notification_error :: "exn \<Rightarrow> feature \<Rightarrow> (exn + val) \<times> feature"
  call :: "nat \<Rightarrow> val list \<Rightarrow> feature \<Rightarrow> (exn + val) \<times> feature"
  object_prototype :: "string \<Rightarrow> (string \<times> val) list \<Rightarrow> val list \<Rightarrow> exn + val"

text \<open>The calls a method makes to the outside, in order.\<close>

datatype effect =
    PanelOpen val val
  | PanelGet val val
  | PanelPost val val val
  | NotifyError exn
  | Invoke fn "val list"

record sys =
  feat :: feature
  trace :: "effect list"


section \<open>Module\<close>

text \<open>Modelled from the spec: \<^verbatim>\<open>isObject\<close> of \<^verbatim>\<open>@/helpers/object\<close> is not among the source
  files; the spec says \<^verbatim>\<open>addEventListeners\<close> "silently ignores non-mapping input".\<close>

fun isObject :: "val \<Rightarrow> bool" where
  "isObject (Obj kvs) = True"
| "isObject v = False"

text \<open>Modelled from the spec: \<^verbatim>\<open>module.js\<close> is not among the source files. Its \<^verbatim>\<open>state()\<close>
  "returns a read-only snapshot (mapping of all current fields)".\<close>

definition state :: "feature \<Rightarrow> val" where
  "state f = Obj
     [(''component'', component f),
      (''isLoading'', isLoading f),
      (''on'', Obj (on f)),
      (''path'', path f),
      (''props'', props f),
      (''query'', query f),
      (''referrer'', referrer f),
      (''timestamp'', timestamp f)]"

text \<open>Modelled from the spec: \<^verbatim>\<open>module.js\<close> is not among the source files. Its \<^verbatim>\<open>set(input)\<close>
  "accepts a full or partial state record; merges it over the existing state
  shallow-field-by-field, replacing the default for any key present in input; leaves keys
  absent from input untouched", with "no error conditions". The listener map is an object
  in this model, so a value of \<^verbatim>\<open>input.on\<close> that is not one is not stored; the feature's own
  \<^verbatim>\<open>set\<close> overwrites the map in its next statement.\<close>

definition merge_field :: "(string \<times> val) list \<Rightarrow> string \<Rightarrow> val \<Rightarrow> val" where
  "merge_field input k old = (case map_of input k of Some v \<Rightarrow> v | None \<Rightarrow> old)"

definition module_set :: "val \<Rightarrow> feature \<Rightarrow> feature" where
  "module_set input f =
     (case input of
        Obj kvs \<Rightarrow>
          \<lparr> component = merge_field kvs ''component'' (component f),
            isLoading = merge_field kvs ''isLoading'' (isLoading f),
            on = (case map_of kvs ''on'' of Some (Obj l) \<Rightarrow> l | _ \<Rightarrow> on f),
            path = merge_field kvs ''path'' (path f),
            props = merge_field kvs ''props'' (props f),
            query = merge_field kvs ''query'' (query f),
            referrer = merge_field kvs ''referrer'' (referrer f),
            timestamp = merge_field kvs ''timestamp'' (timestamp f) \<rparr>
      | _ \<Rightarrow> f)"


section \<open>Feature\<close>

subsection \<open>Listeners\<close>

text \<open>The body of \<^verbatim>\<open>for (const event in listeners)\<close>: the loop visits the keys of
  \<open>listeners\<close>, reads \<^verbatim>\<open>listeners[event]\<close> (the own property: \<open>event\<close> is one of the object's
  own keys) and assigns \<^verbatim>\<open>this.on[event]\<close>.\<close>

fun addEventListeners_loop ::
  "(string \<times> val) list \<Rightarrow> string list \<Rightarrow> (string \<times> val) list \<Rightarrow> (string \<times> val) list" where
  "addEventListeners_loop listeners [] on_map = on_map"
| "addEventListeners_loop listeners (event # events) on_map =
     addEventListeners_loop listeners events
       (if typeof (own_prop listeners event) = ''function''
        then AList.update event (own_prop listeners event) on_map
        else on_map)"

text \<open>\<^verbatim>\<open>addEventListeners(listeners)\<close> returns \<^verbatim>\<open>undefined\<close> on both paths; the model returns
  the state.\<close>

definition addEventListeners :: "val \<Rightarrow> feature \<Rightarrow> feature" where
  "addEventListeners listeners f =
     (if isObject listeners = False then f
      else (case listeners of
              Obj kvs \<Rightarrow> f\<lparr>on := addEventListeners_loop kvs (map fst kvs) (on f)\<rparr>
            | _ \<Rightarrow> f))"

text \<open>\<^verbatim>\<open>typeof this.on[event] === "function"\<close>: the read goes through the prototype chain
  of the listener map, a plain object.\<close>

definition hasEventListener :: "feature \<Rightarrow> string \<Rightarrow> bool" where
  "hasEventListener f event = (typeof (chain_prop (on f) event) = ''function'')"

definition hasSubmitter :: "feature \<Rightarrow> bool" where
  "hasSubmitter f =
     (if hasEventListener f ''submit'' = True then True
      else if typeof (path f) = ''string'' then True
      else False)"

text \<open>An inherited method called as \<^verbatim>\<open>this.on[event](...args)\<close>, that is on the listener
  map: \<^verbatim>\<open>toString\<close> gives \<^verbatim>\<open>"[object Object]"\<close>, \<^verbatim>\<open>valueOf\<close> gives the map itself, and
  the others are the runtime's, which computes a value or throws. What a runtime method
  does beyond that (the accessor that \<^verbatim>\<open>__defineGetter__\<close> installs, a call back into a
  handler) is outside the model.\<close>

definition apply_inherited ::
  "env \<Rightarrow> string \<Rightarrow> val list \<Rightarrow> feature \<Rightarrow> (exn + val) \<times> feature" where
  "apply_inherited e name args f =
     (if name = ''toString'' then (Inr (Str ''[object Object]''), f)
      else if name = ''valueOf'' then (Inr (Obj (on f)), f)
      else (object_prototype e name (on f) args, f))"

text \<open>Calling a function value: the no-op function returns \<^verbatim>\<open>undefined\<close> and touches
  nothing; a function \<open>Fn n\<close> is the collaborator's.\<close>

fun apply_fn :: "env \<Rightarrow> fn \<Rightarrow> val list \<Rightarrow> feature \<Rightarrow> (exn + val) \<times> feature" where
  "apply_fn e Dummy args f = (Inr Undefined, f)"
| "apply_fn e (Fn n) args f = call e n args f"
| "apply_fn e (Inherited name) args f = apply_inherited e name args f"

text \<open>\<^verbatim>\<open>emit(event, ...args)\<close>. Calling a value that is not a function is a \<^verbatim>\<open>TypeError\<close>.\<close>

definition emit :: "env \<Rightarrow> string \<Rightarrow> val list \<Rightarrow> sys \<Rightarrow> (exn + val) \<times> sys" where
  "emit e event args s =
     (if hasEventListener (feat s) event = True
      then (case chain_prop (on (feat s)) event of
              Fun h \<Rightarrow>
                (let (r, f') = apply_fn e h args (feat s)
                 in (r, \<lparr>feat = f', trace = trace s @ [Invoke h args]\<rparr>))
            | _ \<Rightarrow> (Inl TypeError, s))
      else (Inr (Fun Dummy), s))"

subsection \<open>set, url\<close>

text \<open>\<^verbatim>\<open>set(state)\<close>: the base merge, \<^verbatim>\<open>this.on = {}\<close>, then
  \<^verbatim>\<open>this.addEventListeners(state.on ?? {})\<close>. Reading \<^verbatim>\<open>state.on\<close> throws on \<^verbatim>\<open>null\<close> and
  \<^verbatim>\<open>undefined\<close>, after the two assignments.\<close>

definition set_feature :: "val \<Rightarrow> feature \<Rightarrow> (exn + val) \<times> feature" where
  "set_feature st f =
     (let f1 = module_set st f;
          f2 = f1\<lparr>on := []\<rparr>
      in case get_prop st ''on'' of
           Inl x \<Rightarrow> (Inl x, f2)
         | Inr l \<Rightarrow>
             (let f3 = addEventListeners (coalesce l (Obj [])) f2
              in (Inr (state f3), f3)))"

definition url :: "env \<Rightarrow> feature \<Rightarrow> exn + val" where
  "url e f = panel_url e (path f) (query f)"

subsection \<open>load, open\<close>

text \<open>The methods are \<^verbatim>\<open>async\<close>. The model runs each to completion: an awaited call is run
  when it is made, and a \<^verbatim>\<open>throw\<close> (a rejected promise) is the \<open>Inl\<close> result, with the state
  as it is at that point.\<close>

definition load :: "env \<Rightarrow> val \<Rightarrow> val \<Rightarrow> sys \<Rightarrow> (exn + val) \<times> sys" where
  "load e u options0 s =
     (let options = default_arg (Obj []) options0;
          f1 = (feat s)\<lparr>isLoading := Bool True\<rparr>;
          (r, f2) = panel_open e u options f1;
          t = trace s @ [PanelOpen u options]
      in case r of
           Inl x \<Rightarrow> (Inl x, \<lparr>feat = f2, trace = t\<rparr>)
         | Inr _ \<Rightarrow>
             (let f3 = f2\<lparr>isLoading := Bool False\<rparr>
              in case get_prop options ''on'' of
                   Inl x \<Rightarrow> (Inl x, \<lparr>feat = f3, trace = t\<rparr>)
                 | Inr l \<Rightarrow>
                     (let f4 = addEventListeners l f3
                      in (Inr (state f4), \<lparr>feat = f4, trace = t\<rparr>))))"

text \<open>The wrapper at the head of \<^verbatim>\<open>open\<close>: a function given as options is the submit
  handler.\<close>

definition submit_wrapper :: "val \<Rightarrow> val" where
  "submit_wrapper options =
     (if typeof options = ''function''
      then Obj [(''on'', Obj [(''submit'', options)])]
      else options)"

definition open_feature :: "env \<Rightarrow> val \<Rightarrow> val \<Rightarrow> sys \<Rightarrow> (exn + val) \<times> sys" where
  "open_feature e feature options0 s =
     (let options = submit_wrapper (default_arg (Obj []) options0)
      in if isUrl e feature = True then load e feature options s
         else (case set_feature feature (feat s) of
                 (Inl x, f1) \<Rightarrow> (Inl x, s\<lparr>feat := f1\<rparr>)
               | (Inr _, f1) \<Rightarrow>
                   (case get_prop options ''on'' of
                      Inl x \<Rightarrow> (Inl x, s\<lparr>feat := f1\<rparr>)
                    | Inr l \<Rightarrow>
                        (let f2 = addEventListeners l f1
                         in case emit e ''open'' [feature, options] (s\<lparr>feat := f2\<rparr>) of
                              (Inl x, s3) \<Rightarrow> (Inl x, s3)
                            | (Inr _, s3) \<Rightarrow> (Inr (state (feat s3)), s3)))))"

subsection \<open>post\<close>

text \<open>\<^verbatim>\<open>this.props?.value\<close>\<close>

definition props_value :: "feature \<Rightarrow> val" where
  "props_value f =
     (if nullish (props f) then Undefined
      else (case get_prop (props f) ''value'' of Inr v \<Rightarrow> v | Inl _ \<Rightarrow> Undefined))"

text \<open>\<^verbatim>\<open>post(value, options)\<close>: the \<^verbatim>\<open>finally\<close> block runs on each of the three ways out of
  the \<^verbatim>\<open>try\<close>: the return of the awaited value, the end of the \<^verbatim>\<open>catch\<close> block, and a
  throw from inside the \<^verbatim>\<open>catch\<close> block.\<close>

definition post :: "env \<Rightarrow> val \<Rightarrow> val \<Rightarrow> sys \<Rightarrow> (exn + val) \<times> sys" where
  "post e value0 options0 s =
     (let options = default_arg (Obj []) options0
      in if \<not> truthy (path (feat s))
         then (Inl (Error (''The '' @ key e @ '' cannot be posted'')), s)
         else
           (let f1 = (feat s)\<lparr>isLoading := Bool True\<rparr>;
                value = coalesce (coalesce value0 (props_value f1)) (Obj []);
                (r, f2) = panel_post e (path f1) value options f1;
                t = trace s @ [PanelPost (path f1) value options]
            in case r of
                 Inr v \<Rightarrow> (Inr v, \<lparr>feat = f2\<lparr>isLoading := Bool False\<rparr>, trace = t\<rparr>)
               | Inl error \<Rightarrow>
                   (let (r', f3) = notification_error e error f2;
                        t' = t @ [NotifyError error]
                    in case r' of
                         Inl x \<Rightarrow> (Inl x, \<lparr>feat = f3\<lparr>isLoading := Bool False\<rparr>, trace = t'\<rparr>)
                       | Inr _ \<Rightarrow>
                           (Inr (Bool False),
                            \<lparr>feat = f3\<lparr>isLoading := Bool False\<rparr>, trace = t'\<rparr>))))"

subsection \<open>refresh, reload\<close>

text \<open>The first two statements of \<^verbatim>\<open>refresh\<close>: \<^verbatim>\<open>options.url = options.url ?? this.url()\<close>
  and the awaited \<^verbatim>\<open>panel.get(options.url, options)\<close>. The result is the response.\<close>

definition refresh_request :: "env \<Rightarrow> val \<Rightarrow> sys \<Rightarrow> (exn + val) \<times> sys" where
  "refresh_request e options0 s =
     (let options = default_arg (Obj []) options0
      in case get_prop options ''url'' of
           Inl x \<Rightarrow> (Inl x, s)
         | Inr u0 \<Rightarrow>
             (case (if nullish u0 then url e (feat s) else Inr u0) of
                Inl x \<Rightarrow> (Inl x, s)
              | Inr u \<Rightarrow>
                  (case set_prop options ''url'' u of
                     Inl x \<Rightarrow> (Inl x, s)
                   | Inr options' \<Rightarrow>
                       (let (r, f1) = panel_get e u options' (feat s)
                        in (r, \<lparr>feat = f1, trace = trace s @ [PanelGet u options']\<rparr>)))))"

text \<open>The rest of \<^verbatim>\<open>refresh\<close>, from \<^verbatim>\<open>const state = response["$" + this.key()]\<close> on. The
  bare \<^verbatim>\<open>return\<close> gives \<^verbatim>\<open>undefined\<close>. \<^verbatim>\<open>state.component\<close> and \<^verbatim>\<open>state.props\<close> are read
  from a truthy value only, so neither read throws.\<close>

definition refresh_update :: "env \<Rightarrow> val \<Rightarrow> sys \<Rightarrow> (exn + val) \<times> sys" where
  "refresh_update e response s =
     (case get_prop response (''$'' @ key e) of
        Inl x \<Rightarrow> (Inl x, s)
      | Inr st \<Rightarrow>
          (if \<not> truthy st then (Inr Undefined, s)
           else (case get_prop st ''component'' of
                   Inl x \<Rightarrow> (Inl x, s)
                 | Inr c \<Rightarrow>
                     (if \<not> strict_eq c (component (feat s)) then (Inr Undefined, s)
                      else (case get_prop st ''props'' of
                              Inl x \<Rightarrow> (Inl x, s)
                            | Inr p \<Rightarrow>
                                (let f' = (feat s)\<lparr>props := p\<rparr>
                                 in (Inr (state f'), s\<lparr>feat := f'\<rparr>)))))))"

definition refresh :: "env \<Rightarrow> val \<Rightarrow> sys \<Rightarrow> (exn + val) \<times> sys" where
  "refresh e options s =
     (case refresh_request e options s of
        (Inl x, s1) \<Rightarrow> (Inl x, s1)
      | (Inr response, s1) \<Rightarrow> refresh_update e response s1)"

text \<open>\<^verbatim>\<open>reload(options)\<close> calls \<^verbatim>\<open>this.open(this.url(), options)\<close> without \<^verbatim>\<open>await\<close> and
  without \<^verbatim>\<open>return\<close>: the promise of \<^verbatim>\<open>open\<close> is dropped, so neither its value nor its
  rejection reaches the caller, and \<^verbatim>\<open>reload\<close> gives \<^verbatim>\<open>undefined\<close>.\<close>

definition reload :: "env \<Rightarrow> val \<Rightarrow> sys \<Rightarrow> (exn + val) \<times> sys" where
  "reload e options0 s =
     (let options = default_arg (Obj []) options0
      in if \<not> truthy (path (feat s)) then (Inr (Bool False), s)
         else (case url e (feat s) of
                 Inl x \<Rightarrow> (Inl x, s)
               | Inr u \<Rightarrow>
                   (let (r, s1) = open_feature e u options s
                    in (Inr Undefined, s1))))"


section \<open>Vocabulary of the properties\<close>



text \<open>Every value stored in the listener map is a function.\<close>

definition listeners_callable :: "feature \<Rightarrow> bool" where
  "listeners_callable f = list_all (\<lambda>(k, v). typeof v = ''function'') (on f)"

text \<open>A collaborator's call keeps that property of the feature it is handed. The panel
  reaches a feature through the feature's own methods, which keep it.\<close>

definition keeps_listeners :: "(feature \<Rightarrow> (exn + val) \<times> feature) \<Rightarrow> bool" where
  "keeps_listeners a = (\<forall>f. listeners_callable f \<longrightarrow> listeners_callable (snd (a f)))"

definition env_keeps_listeners :: "env \<Rightarrow> bool" where
  "env_keeps_listeners e =
     ((\<forall>u options. keeps_listeners (panel_open e u options)) \<and>
      (\<forall>n args. keeps_listeners (call e n args)))"

text \<open>A caller's sequence of method calls on one feature; a call that throws leaves the
  state it reached.\<close>

datatype method_call =
    AddEventListeners val
  | Set val
  | Open val val
  | Load val val

fun step :: "env \<Rightarrow> method_call \<Rightarrow> sys \<Rightarrow> sys" where
  "step e (AddEventListeners l) s = s\<lparr>feat := addEventListeners l (feat s)\<rparr>"
| "step e (Set st) s = s\<lparr>feat := snd (set_feature st (feat s))\<rparr>"
| "step e (Open target options) s = snd (open_feature e target options s)"
| "step e (Load u options) s = snd (load e u options s)"

definition run :: "env \<Rightarrow> method_call list \<Rightarrow> sys \<Rightarrow> sys" where
  "run e calls s = foldl (\<lambda>s c. step e c s) s calls"


section \<open>Sample collaborators and states\<close>

text \<open>A panel whose \<^verbatim>\<open>post\<close> always fails, whose \<^verbatim>\<open>open\<close> installs a dialog, and whose
  functions \<open>Fn n\<close> return \<open>n\<close> and leave a mark in \<open>referrer\<close>. Used to run the methods on
  concrete inputs.\<close>

definition demo_env :: env where
  "demo_env =
     \<lparr> key = ''dialog'',
       isUrl = (\<lambda>v. case v of Str x \<Rightarrow> True | Url x \<Rightarrow> True | _ \<Rightarrow> False),
       panel_open = (\<lambda>u opts f.
          (Inr Undefined, f\<lparr>component := Str ''k-form-dialog'', path := u\<rparr>)),
       panel_get = (\<lambda>u opts f.
          (Inr (Obj [(''$dialog'',
                  Obj [(''component'', Str ''k-form-dialog''),
                       (''props'', Obj [(''value'', Num 1)])])]),
           f)),
       panel_post = (\<lambda>p v opts f. (Inl (Thrown (Str ''offline'')), f)),
       panel_url = (\<lambda>p q. case p of Str x \<Rightarrow> Inr (Url x) | _ \<Rightarrow> Inl TypeError),
       notification_error = (\<lambda>x f. (Inr Undefined, f)),
       call = (\<lambda>n args f. (Inr (Num (int n)), f\<lparr>referrer := Num (int n)\<rparr>)),
       object_prototype = (\<lambda>name this args. Inr Undefined) \<rparr>"

definition fresh :: sys where
  "fresh = \<lparr>feat = defaults, trace = []\<rparr>"

definition posting :: sys where
  "posting =
     \<lparr>feat = defaults\<lparr>path := Str ''/x'', props := Obj [(''value'', Num 5)]\<rparr>, trace = []\<rparr>"

definition listening :: sys where
  "listening = \<lparr>feat = defaults\<lparr>on := [(''submit'', Fun (Fn 7))]\<rparr>, trace = []\<rparr>"

definition refreshing :: sys where
  "refreshing =
     \<lparr>feat = defaults\<lparr>component := Str ''k-form-dialog'', path := Str ''/x'',
                      props := Obj [(''value'', Num 0)]\<rparr>,
      trace = []\<rparr>"

definition busy :: sys where
  "busy =
     \<lparr>feat = defaults\<lparr>path := Str ''/x'',
                      on := [(''submit'', Fun (Fn 7)), (''close'', Fun (Fn 8))]\<rparr>,
      trace = []\<rparr>"

definition literal :: val where
  "literal =
     Obj [(''component'', Str ''k-text-dialog''),
          (''on'', Obj [(''open'', Fun (Fn 3)), (''cancel'', Str ''no'')])]"


section \<open>Basic facts\<close>

lemma typeof_function: "typeof v = ''function'' \<longleftrightarrow> (\<exists>h. v = Fun h)"
  by (cases v) simp_all

lemma typeof_string: "typeof v = ''string'' \<longleftrightarrow> (\<exists>x. v = Str x)"
  by (cases v) simp_all


lemma chain_prop_own: "map_of m k = Some v \<Longrightarrow> chain_prop m k = v"
  by (simp add: chain_prop_def)

text \<open>The event names the feature itself uses are not inherited names.\<close>

lemma chain_prop_submit: "chain_prop m ''submit'' = own_prop m ''submit''"
  by (simp add: chain_prop_def own_prop_def object_prototype_methods_def)

lemma chain_prop_open: "chain_prop m ''open'' = own_prop m ''open''"
  by (simp add: chain_prop_def own_prop_def object_prototype_methods_def)

lemma apply_inherited_state: "snd (apply_inherited e name args f) = f"
  by (simp add: apply_inherited_def)

lemma get_prop_truthy: "truthy st \<Longrightarrow> \<exists>c. get_prop st k = Inr c"
  by (cases st) simp_all

lemma submit_wrapper_Undefined: "submit_wrapper v = Undefined \<longleftrightarrow> v = Undefined"
  by (cases v) (simp_all add: submit_wrapper_def)


lemma default_arg_Undefined: "default_arg (Obj []) v \<noteq> Undefined"
  by (simp add: default_arg_def)

lemma default_arg_idem: "v \<noteq> Undefined \<Longrightarrow> default_arg d v = v"
  by (simp add: default_arg_def)

text \<open>The options that \<^verbatim>\<open>open\<close> hands to \<^verbatim>\<open>load\<close> are never \<^verbatim>\<open>undefined\<close>, so the default
  parameter of \<^verbatim>\<open>load\<close> leaves them alone.\<close>

lemma normalised_options:
  "default_arg (Obj []) (submit_wrapper (default_arg (Obj []) v)) =
   submit_wrapper (default_arg (Obj []) v)"
  by (simp add: default_arg_idem submit_wrapper_Undefined default_arg_Undefined)



section \<open>hasSubmitter\<close>

text \<open>What \<^verbatim>\<open>hasSubmitter\<close> computes: a submit listener, or a path of type string, the
  empty string included.\<close>

lemma hasSubmitter_iff:
  "hasSubmitter f \<longleftrightarrow> hasEventListener f ''submit'' \<or> (\<exists>x. path f = Str x)"
  by (simp add: hasSubmitter_def typeof_string)

lemma hasSubmitter_defaults: "hasSubmitter defaults = False"
  by (simp add: hasSubmitter_def hasEventListener_def defaults_def chain_prop_submit own_prop_def)

text \<open>
  C1. \<^verbatim>\<open>hasSubmitter()\<close> is claimed to be true exactly when a submit listener is registered or
  the path is a non-empty string. On a feature with no listener and the empty string as
  path it answers true, although the path is not a non-empty string and \<^verbatim>\<open>post\<close> refuses
  the same feature with "cannot be posted".
\<close>

theorem hasSubmitter_empty_path:
  "hasSubmitter (defaults\<lparr>path := Str []\<rparr>) = True
   \<and> hasEventListener (defaults\<lparr>path := Str []\<rparr>) ''submit'' = False
   \<and> truthy (path (defaults\<lparr>path := Str []\<rparr>)) = False
   \<and> post demo_env Undefined Undefined \<lparr>feat = defaults\<lparr>path := Str []\<rparr>, trace = []\<rparr> =
       (Inl (Error ''The dialog cannot be posted''),
        \<lparr>feat = defaults\<lparr>path := Str []\<rparr>, trace = []\<rparr>)"
  by (simp add: hasSubmitter_def hasEventListener_def defaults_def chain_prop_submit
      own_prop_def post_def demo_env_def)


section \<open>addEventListeners\<close>








section \<open>emit\<close>


text \<open>A handler registered under the event name is called once, with exactly the
  arguments, and its result is the result of \<^verbatim>\<open>emit\<close>.\<close>

lemma emit_registered:
  assumes "map_of (on (feat s)) event = Some (Fun h)"
  shows "emit e event args s =
           (fst (apply_fn e h args (feat s)),
            \<lparr>feat = snd (apply_fn e h args (feat s)), trace = trace s @ [Invoke h args]\<rparr>)"
  using assms by (simp add: emit_def hasEventListener_def chain_prop_own split: prod.splits)

lemma emit_registered_submit:
  "emit demo_env ''submit'' [Num 1, Str ''a''] listening =
     (Inr (Num 7),
      \<lparr>feat = (feat listening)\<lparr>referrer := Num 7\<rparr>,
       trace = [Invoke (Fn 7) [Num 1, Str ''a'']]\<rparr>)"
  using emit_registered [of listening "''submit''" "Fn 7" demo_env "[Num 1, Str ''a'']"]
  by (simp add: listening_def defaults_def demo_env_def)

text \<open>With nothing registered under a name that \<^verbatim>\<open>Object.prototype\<close> does not have as a
  method, \<^verbatim>\<open>emit\<close> calls nothing and returns the no-op function.\<close>

lemma emit_unregistered:
  assumes "map_of (on (feat s)) event = None" and "event \<notin> set object_prototype_methods"
  shows "emit e event args s = (Inr (Fun Dummy), s)"
  using assms
  by (simp add: emit_def hasEventListener_def chain_prop_def object_prototype_object_def)

text \<open>
  C7. \<^verbatim>\<open>emit(event, ...args)\<close> is claimed, for every event name, to return a no-op function
  without calling anything when no handler is registered for the event. On a feature in
  its default state, where no handler is registered at all, \<^verbatim>\<open>hasEventListener("toString")\<close>
  is true, because \<^verbatim>\<open>this.on["toString"]\<close> finds the method every plain object inherits,
  and \<^verbatim>\<open>emit("toString")\<close> calls that method and returns \<^verbatim>\<open>"[object Object]"\<close>.
\<close>

theorem emit_inherited_toString:
  "map_of (on (feat fresh)) ''toString'' = None
   \<and> hasEventListener (feat fresh) ''toString'' = True
   \<and> emit demo_env ''toString'' [] fresh =
       (Inr (Str ''[object Object]''),
        \<lparr>feat = defaults, trace = [Invoke (Inherited ''toString'') []]\<rparr>)
   \<and> emit demo_env ''toString'' [] fresh \<noteq> (Inr (Fun Dummy), fresh)"
  by (simp add: fresh_def defaults_def emit_def hasEventListener_def chain_prop_def
      object_prototype_methods_def apply_inherited_def)


section \<open>set\<close>







section \<open>post\<close>

text \<open>
  C2. On a feature whose path is falsy, \<^verbatim>\<open>post(value, options)\<close> throws an error whose
  message contains the feature's key; the throw is the result of the call, and the state
  after the call is the state before it, so \<^verbatim>\<open>isLoading\<close> is what it was.
\<close>

theorem post_without_path:
  assumes "\<not> truthy (path (feat s))"
  shows "post e v opts s = (Inl (Error (''The '' @ key e @ '' cannot be posted'')), s)
       \<and> (\<exists>pre suf. ''The '' @ key e @ '' cannot be posted'' = pre @ key e @ suf)
       \<and> isLoading (feat (snd (post e v opts s))) = isLoading (feat s)"
proof -
  have "post e v opts s = (Inl (Error (''The '' @ key e @ '' cannot be posted'')), s)"
    using assms by (simp add: post_def)
  moreover have "\<exists>pre suf. ''The '' @ key e @ '' cannot be posted'' = pre @ key e @ suf"
    by blast
  ultimately show ?thesis by simp
qed

theorem post_without_path_witness:
  "\<not> truthy (path (feat fresh))
   \<and> post demo_env (Obj []) Undefined fresh = (Inl (Error ''The dialog cannot be posted''), fresh)
   \<and> isLoading (feat (snd (post demo_env (Obj []) Undefined fresh))) = Bool False"
  using post_without_path [of fresh demo_env "Obj []" Undefined]
  by (simp add: fresh_def defaults_def demo_env_def)

text \<open>
  C3. On a feature whose path is set, \<^verbatim>\<open>isLoading\<close> is false after \<^verbatim>\<open>post\<close>, whatever the
  outcome. When \<^verbatim>\<open>panel.post\<close> throws, the error goes to \<^verbatim>\<open>panel.notification.error\<close>,
  and (the notification returning) \<^verbatim>\<open>post\<close> does not throw and returns \<^verbatim>\<open>false\<close>.
\<close>

theorem post_catches_failure:
  fixes e v opts s
  defines "f1 \<equiv> (feat s)\<lparr>isLoading := Bool True\<rparr>"
  defines "value \<equiv> coalesce (coalesce v (props_value f1)) (Obj [])"
  defines "options \<equiv> default_arg (Obj []) opts"
  assumes "truthy (path (feat s))"
  shows "isLoading (feat (snd (post e v opts s))) = Bool False \<and>
         (panel_post e (path (feat s)) value options f1 = (Inl err, f2) \<and>
          notification_error e err f2 = (Inr x, f3) \<longrightarrow>
          post e v opts s =
            (Inr (Bool False),
             \<lparr>feat = f3\<lparr>isLoading := Bool False\<rparr>,
              trace = trace s @ [PanelPost (path (feat s)) value options, NotifyError err]\<rparr>))"
  using assms by (simp add: post_def Let_def split: prod.splits sum.splits)

theorem post_catches_failure_witness:
  "truthy (path (feat posting)) \<and>
   post demo_env Undefined Undefined posting =
     (Inr (Bool False),
      \<lparr>feat = feat posting,
       trace = [PanelPost (Str ''/x'') (Num 5) (Obj []), NotifyError (Thrown (Str ''offline''))]\<rparr>) \<and>
   post (demo_env\<lparr>panel_post := \<lambda>p v opts f. (Inr v, f)\<rparr>) Undefined Undefined posting =
     (Inr (Num 5), \<lparr>feat = feat posting, trace = [PanelPost (Str ''/x'') (Num 5) (Obj [])]\<rparr>)"
  using post_catches_failure [of posting demo_env Undefined Undefined
      "Thrown (Str ''offline'')" "(feat posting)\<lparr>isLoading := Bool True\<rparr>" Undefined
      "(feat posting)\<lparr>isLoading := Bool True\<rparr>"]
  by (simp add: posting_def defaults_def demo_env_def props_value_def coalesce_def
      default_arg_def own_prop_def post_def Let_def)


section \<open>refresh\<close>

lemma refresh_update_discard:
  assumes "map_of r (''$'' @ key e) = None \<or>
           \<not> strict_eq (case get_prop (own_prop r (''$'' @ key e)) ''component'' of
                           Inr c \<Rightarrow> c | Inl x \<Rightarrow> Undefined)
               (component (feat s))"
  shows "refresh_update e (Obj r) s = (Inr Undefined, s)"
proof (cases "truthy (own_prop r (''$'' @ key e))")
  case False
  then show ?thesis by (simp add: refresh_update_def)
next
  case True
  then have "map_of r (''$'' @ key e) \<noteq> None"
    by (auto simp: own_prop_def split: option.splits)
  with assms True show ?thesis
    using get_prop_truthy [OF True, of "''component''"]
    by (auto simp: refresh_update_def)
qed

lemma refresh_update_replace:
  assumes "strict_eq (case get_prop (own_prop r (''$'' @ key e)) ''component'' of
                        Inr c \<Rightarrow> c | Inl x \<Rightarrow> Undefined)
               (component (feat s))"
    and "component (feat s) \<noteq> Undefined"
  shows "refresh_update e (Obj r) s =
          (let f' = (feat s)\<lparr>props := (case get_prop (own_prop r (''$'' @ key e)) ''props'' of
                                          Inr p \<Rightarrow> p | Inl x \<Rightarrow> Undefined)\<rparr>
           in (Inr (state f'), s\<lparr>feat := f'\<rparr>))"
proof (cases "own_prop r (''$'' @ key e)")
  case (Obj kvs)
  with assms show ?thesis by (simp add: refresh_update_def Let_def)
qed (use assms in \<open>auto simp: refresh_update_def Let_def\<close>)

text \<open>
  C4. Take a \<^verbatim>\<open>refresh\<close> whose request returned a response record, the feature being in
  state \<open>s1\<close> at that point, and write \<open>c\<close> and \<open>p\<close> for the \<^verbatim>\<open>component\<close> and \<^verbatim>\<open>props\<close> of
  the response's field \<^verbatim>\<open>"$" + key()\<close> (\<^verbatim>\<open>undefined\<close> where there is none). If the field is
  absent or \<open>c\<close> is not the feature's current component, \<^verbatim>\<open>refresh\<close> raises nothing, returns
  \<^verbatim>\<open>undefined\<close> and leaves every field as it is. Otherwise (the current component being
  other than \<^verbatim>\<open>undefined\<close>) it returns the snapshot of the state in which \<^verbatim>\<open>props\<close> is \<open>p\<close>
  and every other field is unchanged.
\<close>

theorem refresh_frame:
  fixes e r s1
  defines "st \<equiv> own_prop r (''$'' @ key e)"
  defines "c \<equiv> (case get_prop st ''component'' of Inr c \<Rightarrow> c | Inl x \<Rightarrow> Undefined)"
  defines "p \<equiv> (case get_prop st ''props'' of Inr p \<Rightarrow> p | Inl x \<Rightarrow> Undefined)"
  assumes "refresh_request e options s = (Inr (Obj r), s1)"
  shows "(map_of r (''$'' @ key e) = None \<or> \<not> strict_eq c (component (feat s1)) \<longrightarrow>
            refresh e options s = (Inr Undefined, s1)) \<and>
         (map_of r (''$'' @ key e) \<noteq> None \<and> strict_eq c (component (feat s1)) \<and>
          component (feat s1) \<noteq> Undefined \<longrightarrow>
            refresh e options s =
              (Inr (state ((feat s1)\<lparr>props := p\<rparr>)),
               s1\<lparr>feat := (feat s1)\<lparr>props := p\<rparr>\<rparr>))"
  using assms refresh_update_discard [of r e s1] refresh_update_replace [of r e s1]
  by (simp add: refresh_def Let_def)

theorem refresh_frame_witness:
  "refresh_request demo_env Undefined refreshing =
     (Inr (Obj [(''$dialog'',
                  Obj [(''component'', Str ''k-form-dialog''),
                       (''props'', Obj [(''value'', Num 1)])])]),
      refreshing\<lparr>trace := [PanelGet (Url ''/x'') (Obj [(''url'', Url ''/x'')])]\<rparr>) \<and>
   refresh demo_env Undefined refreshing =
     (Inr (state ((feat refreshing)\<lparr>props := Obj [(''value'', Num 1)]\<rparr>)),
      \<lparr>feat = (feat refreshing)\<lparr>props := Obj [(''value'', Num 1)]\<rparr>,
       trace = [PanelGet (Url ''/x'') (Obj [(''url'', Url ''/x'')])]\<rparr>) \<and>
   refresh demo_env Undefined
       (refreshing\<lparr>feat := (feat refreshing)\<lparr>component := Str ''k-other''\<rparr>\<rparr>) =
     (Inr Undefined,
      \<lparr>feat = (feat refreshing)\<lparr>component := Str ''k-other''\<rparr>,
       trace = [PanelGet (Url ''/x'') (Obj [(''url'', Url ''/x'')])]\<rparr>)"
  using refresh_frame [of demo_env Undefined refreshing
      "[(''$dialog'', Obj [(''component'', Str ''k-form-dialog''),
                           (''props'', Obj [(''value'', Num 1)])])]"
      "refreshing\<lparr>trace := [PanelGet (Url ''/x'') (Obj [(''url'', Url ''/x'')])]\<rparr>"]
    refresh_frame [of demo_env Undefined
      "refreshing\<lparr>feat := (feat refreshing)\<lparr>component := Str ''k-other''\<rparr>\<rparr>"
      "[(''$dialog'', Obj [(''component'', Str ''k-form-dialog''),
                           (''props'', Obj [(''value'', Num 1)])])]"
      "\<lparr>feat = (feat refreshing)\<lparr>component := Str ''k-other''\<rparr>,
        trace = [PanelGet (Url ''/x'') (Obj [(''url'', Url ''/x'')])]\<rparr>"]
  by (simp add: refreshing_def defaults_def demo_env_def refresh_request_def default_arg_def
      own_prop_def url_def Let_def)


section \<open>load, open\<close>

lemma load_trace:
  "trace (snd (load e u options s)) = trace s @ [PanelOpen u (default_arg (Obj []) options)]"
  by (simp add: load_def Let_def split: prod.splits sum.splits)


lemma open_url:
  "isUrl e target \<Longrightarrow>
   open_feature e target options s =
   load e target (submit_wrapper (default_arg (Obj []) options)) s"
  by (simp add: open_feature_def)






section \<open>reload\<close>

text \<open>
  C9. On a feature whose path is falsy, \<^verbatim>\<open>reload(options)\<close> returns \<^verbatim>\<open>false\<close> and leaves
  the state and the record of outside calls as they are. On a feature whose path is set,
  with \<open>u\<close> the URL that \<^verbatim>\<open>url()\<close> builds from path and query, the state after \<^verbatim>\<open>reload\<close> is
  the state after one \<^verbatim>\<open>open(u, options)\<close>; when \<open>u\<close> is URL-like the outside calls made are
  exactly one \<^verbatim>\<open>panel.open\<close> on \<open>u\<close>.
\<close>

theorem reload_reopens:
  "(\<not> truthy (path (feat s)) \<longrightarrow> reload e options s = (Inr (Bool False), s)) \<and>
   (truthy (path (feat s)) \<and> panel_url e (path (feat s)) (query (feat s)) = Inr u \<longrightarrow>
      reload e options s =
        (Inr Undefined, snd (open_feature e u (default_arg (Obj []) options) s)) \<and>
      (isUrl e u \<longrightarrow>
         trace (snd (reload e options s)) =
           trace s @ [PanelOpen u (submit_wrapper (default_arg (Obj []) options))]))"
proof -
  have "trace (snd (open_feature e u (default_arg (Obj []) options) s)) =
          trace s @ [PanelOpen u (submit_wrapper (default_arg (Obj []) options))]"
    if "isUrl e u"
    using that
    by (simp add: open_url load_trace normalised_options default_arg_idem default_arg_Undefined)
  then show ?thesis
    by (simp add: reload_def url_def Let_def split_beta)
qed

theorem reload_reopens_witness:
  "\<not> truthy (path (feat fresh)) \<and>
   reload demo_env Undefined fresh = (Inr (Bool False), fresh) \<and>
   truthy (path (feat busy)) \<and>
   panel_url demo_env (path (feat busy)) (query (feat busy)) = Inr (Url ''/x'') \<and>
   isUrl demo_env (Url ''/x'') \<and>
   reload demo_env Undefined busy =
     (Inr Undefined,
      \<lparr>feat = (feat busy)\<lparr>component := Str ''k-form-dialog'', path := Url ''/x''\<rparr>,
       trace = [PanelOpen (Url ''/x'') (Obj [])]\<rparr>)"
  using reload_reopens [of fresh demo_env Undefined]
    reload_reopens [of busy demo_env "Url ''/x''" Undefined]
  by (simp add: fresh_def busy_def defaults_def demo_env_def reload_def url_def open_feature_def
      load_def default_arg_def submit_wrapper_def addEventListeners_def own_prop_def Let_def)


section \<open>The listener map holds functions only\<close>

lemma update_all:
  "list_all P m \<Longrightarrow> P (k, v) \<Longrightarrow> list_all P (AList.update k v m)"
  by (induction m) auto

lemma loop_callable:
  "list_all (\<lambda>(k, v). typeof v = ''function'') m \<Longrightarrow>
   list_all (\<lambda>(k, v). typeof v = ''function'') (addEventListeners_loop l ks m)"
  by (induction ks arbitrary: m) (simp_all add: update_all)

lemma addEventListeners_callable:
  "listeners_callable f \<Longrightarrow> listeners_callable (addEventListeners l f)"
  by (cases l) (simp_all add: addEventListeners_def listeners_callable_def loop_callable)

lemma set_feature_callable: "listeners_callable (snd (set_feature st f))"
proof -
  have "listeners_callable (g\<lparr>on := []\<rparr>)" for g
    by (simp add: listeners_callable_def)
  then show ?thesis
    by (auto simp: set_feature_def Let_def split: sum.splits intro: addEventListeners_callable)
qed

lemma isLoading_callable: "listeners_callable (f\<lparr>isLoading := b\<rparr>) = listeners_callable f"
  by (simp add: listeners_callable_def)

lemma load_callable:
  assumes "env_keeps_listeners e" and "listeners_callable (feat s)"
  shows "listeners_callable (feat (snd (load e u options s)))"
proof -
  let ?o = "default_arg (Obj []) options"
  let ?f1 = "(feat s)\<lparr>isLoading := Bool True\<rparr>"
  from assms(1) have "keeps_listeners (panel_open e u ?o)"
    by (simp add: env_keeps_listeners_def)
  moreover have "listeners_callable ?f1"
    using assms(2) by (simp add: isLoading_callable)
  ultimately have "listeners_callable (snd (panel_open e u ?o ?f1))"
    unfolding keeps_listeners_def by blast
  then show ?thesis
    by (auto simp: load_def Let_def isLoading_callable split: prod.splits sum.splits
        intro: addEventListeners_callable)
qed

lemma apply_fn_callable:
  "listeners_callable f'"
  if "env_keeps_listeners e" "listeners_callable f" "apply_fn e h args f = (r, f')"
proof (cases h)
  case Dummy
  then show ?thesis using that by simp
next
  case (Inherited name)
  then show ?thesis
    using that apply_inherited_state [of e name args f] by simp
next
  case (Fn n)
  from that(1) have "keeps_listeners (call e n args)"
    by (simp add: env_keeps_listeners_def)
  with that(2) have "listeners_callable (snd (call e n args f))"
    unfolding keeps_listeners_def by blast
  with Fn that(3) show ?thesis by simp
qed

lemma emit_callable:
  assumes "env_keeps_listeners e" and "listeners_callable (feat s)"
    and "emit e event args s = (r, s')"
  shows "listeners_callable (feat s')"
  using assms
  by (auto simp: emit_def split: if_splits prod.splits val.splits
      dest: apply_fn_callable [OF assms(1) assms(2)])

lemma open_callable:
  assumes "env_keeps_listeners e" and "listeners_callable (feat s)"
  shows "listeners_callable (feat (snd (open_feature e target options s)))"
proof (cases "isUrl e target")
  case True
  then show ?thesis
    using assms by (simp add: open_feature_def load_callable)
next
  case False
  obtain r1 f1 where set: "set_feature target (feat s) = (r1, f1)"
    by (cases "set_feature target (feat s)")
  then have f1: "listeners_callable f1"
    using set_feature_callable [of target "feat s"] by simp
  let ?opts = "submit_wrapper (default_arg (Obj []) options)"
  show ?thesis
  proof (cases "get_prop ?opts ''on''")
    case (Inl x)
    with False set f1 show ?thesis
      by (auto simp: open_feature_def Let_def split: sum.splits)
  next
    case (Inr l)
    let ?s2 = "s\<lparr>feat := addEventListeners l f1\<rparr>"
    obtain r3 s3 where em: "emit e ''open'' [target, ?opts] ?s2 = (r3, s3)"
      by (cases "emit e ''open'' [target, ?opts] ?s2")
    have "listeners_callable (feat ?s2)"
      using f1 by (simp add: addEventListeners_callable)
    then have "listeners_callable (feat s3)"
      using em by (rule emit_callable [OF assms(1)])
    with False set f1 Inr em show ?thesis
      by (auto simp: open_feature_def Let_def split: sum.splits)
  qed
qed

lemma step_callable:
  "env_keeps_listeners e \<Longrightarrow> listeners_callable (feat s) \<Longrightarrow>
   listeners_callable (feat (step e c s))"
  by (cases c)
    (simp_all add: addEventListeners_callable set_feature_callable open_callable load_callable)

lemma run_callable:
  "env_keeps_listeners e \<Longrightarrow> listeners_callable (feat s) \<Longrightarrow>
   listeners_callable (feat (run e cs s))"
  unfolding run_def by (induction cs arbitrary: s) (simp_all add: step_callable)

lemma callable_lookup:
  "listeners_callable f \<Longrightarrow> map_of (on f) k = Some v \<Longrightarrow> \<exists>h. v = Fun h"
  by (auto simp: listeners_callable_def list_all_iff typeof_function dest!: map_of_SomeD)

text \<open>
  C10. Start from the default state and make any sequence of \<^verbatim>\<open>addEventListeners\<close>, \<^verbatim>\<open>set\<close>,
  \<^verbatim>\<open>open\<close> and \<^verbatim>\<open>load\<close> calls, with collaborators (\<^verbatim>\<open>panel.open\<close>, the handlers) that keep
  the listener map a map of functions. Then every value stored in \<open>on\<close> is a function: a
  value of another kind offered in \<open>listeners\<close> or \<^verbatim>\<open>state.on\<close> is never in the map, and what
  the map itself holds under an event name is nothing (\<^verbatim>\<open>undefined\<close>) or a function.
\<close>

theorem listeners_stay_callable:
  assumes "env_keeps_listeners e"
  shows "listeners_callable (feat (run e calls \<lparr>feat = defaults, trace = []\<rparr>)) \<and>
         (\<forall>k v. map_of (on (feat (run e calls \<lparr>feat = defaults, trace = []\<rparr>))) k = Some v
                \<longrightarrow> (\<exists>h. v = Fun h)) \<and>
         (\<forall>event.
            own_prop (on (feat (run e calls \<lparr>feat = defaults, trace = []\<rparr>))) event = Undefined \<or>
            (\<exists>h. own_prop (on (feat (run e calls \<lparr>feat = defaults, trace = []\<rparr>))) event = Fun h))"
proof -
  let ?f = "feat (run e calls \<lparr>feat = defaults, trace = []\<rparr>)"
  have inv: "listeners_callable ?f"
    by (rule run_callable [OF assms]) (simp add: listeners_callable_def defaults_def)
  then have "\<exists>h. v = Fun h" if "map_of (on ?f) k = Some v" for k v
    using that by (rule callable_lookup)
  then show ?thesis
    using inv by (auto simp: own_prop_def split: option.splits)
qed

theorem listeners_stay_callable_witness:
  "env_keeps_listeners demo_env \<and>
   on (feat (run demo_env
         [AddEventListeners (Obj [(''submit'', Fun (Fn 1)), (''close'', Num 0)]),
          Open literal (Fun (Fn 5)),
          Load (Str ''/y'') (Obj [(''on'', Obj [(''cancel'', Bool True), (''close'', Fun (Fn 6))])]),
          AddEventListeners Null]
         \<lparr>feat = defaults, trace = []\<rparr>)) =
     [(''open'', Fun (Fn 3)), (''submit'', Fun (Fn 5)), (''close'', Fun (Fn 6))] \<and>
   listeners_callable (feat (run demo_env
         [AddEventListeners (Obj [(''submit'', Fun (Fn 1)), (''close'', Num 0)]),
          Open literal (Fun (Fn 5)),
          Load (Str ''/y'') (Obj [(''on'', Obj [(''cancel'', Bool True), (''close'', Fun (Fn 6))])]),
          AddEventListeners Null]
         \<lparr>feat = defaults, trace = []\<rparr>))"
  using listeners_stay_callable [of demo_env
         "[AddEventListeners (Obj [(''submit'', Fun (Fn 1)), (''close'', Num 0)]),
          Open literal (Fun (Fn 5)),
          Load (Str ''/y'') (Obj [(''on'', Obj [(''cancel'', Bool True), (''close'', Fun (Fn 6))])]),
          AddEventListeners Null]"]
  by (simp add: env_keeps_listeners_def keeps_listeners_def listeners_callable_def
      run_def literal_def defaults_def demo_env_def open_feature_def load_def set_feature_def
      module_set_def merge_field_def emit_def hasEventListener_def chain_prop_open
      default_arg_def submit_wrapper_def coalesce_def addEventListeners_def own_prop_def Let_def)

end
